theory Spec2Isabelle
  imports Complex_Main
begin

section \<open>The homepage feature list (src/components/HomepageFeatures/index.tsx)\<close>

subsection \<open>Renderable trees\<close>

text \<open>
  A component referenced from JSX: \<open>Heading\<close> is the import \<^verbatim>\<open>@theme/Heading\<close>; an
  \<open>SvgModule\<close> is the default export of a required \<^verbatim>\<open>.svg\<close> module, named by its path.
  Neither is expanded: both appear in the tree as elements, with the props they received.
\<close>

datatype component = Heading | SvgModule string

datatype etype = Tag string | Comp component

text \<open>
  The value of a JSX expression. \<open>Element t props children\<close> is an element of a host tag
  or of an imported component; \<open>Fragment\<close> is \<^verbatim>\<open><>...</>\<close>; \<open>Text\<close> is a string child.
  \<open>Keyed k n\<close> is an instance of a function component of this module that was given
  \<^verbatim>\<open>key={k}\<close>, together with the tree \<open>n\<close> the component returns for its props.
\<close>

datatype node =
    Text string
  | Fragment "node list"
  | Element etype "(string \<times> string) list" "node list"
  | Keyed nat node

text \<open>\<^verbatim>\<open>type FeatureItem = {title: string; Svg: ComponentType; description: ReactNode}\<close>\<close>

record FeatureItem =
  title :: string
  Svg :: component
  description :: node

text \<open>
  \<^verbatim>\<open>import styles from './styles.module.css'\<close>: the two class names the module reads
  from the style sheet. The style sheet is a parameter of the model.
\<close>

record styles =
  features :: string
  featureSvg :: string

subsection \<open>The constant list\<close>

definition FeatureList :: "FeatureItem list" where
  "FeatureList =
    [ \<lparr> title = ''Easy Integration'',
        Svg = SvgModule ''@site/static/img/undraw_docusaurus_mountain.svg'',
        description = Fragment [Text
          (''Protekt was designed from the ground up to be easily integrated into any '' @
           ''application. Get secure authentication up and running in under 30 minutes.'')] \<rparr>,
      \<lparr> title = ''Focus on Your Product'',
        Svg = SvgModule ''@site/static/img/undraw_docusaurus_tree.svg'',
        description = Fragment [Text
          (''Protekt handles all the complex authentication logic, so you can focus on '' @
           ''building amazing features. We'' @ [CHR 0x27] @
           ''ll take care of security and compliance.'')] \<rparr>,
      \<lparr> title = ''Developer-First APIs'',
        Svg = SvgModule ''@site/static/img/undraw_docusaurus_react.svg'',
        description = Fragment [Text
          (''Built with developers in mind. Clean REST APIs, comprehensive SDKs, and '' @
           ''detailed documentation to get you started quickly.'')] \<rparr> ]"

subsection \<open>The components\<close>

text \<open>
  \<^verbatim>\<open>clsx\<close> on string arguments: the non-empty ones, joined by single spaces.
\<close>

fun join_space :: "string list \<Rightarrow> string" where
  "join_space [] = []"
| "join_space [s] = s"
| "join_space (s # t # ts) = s @ '' '' @ join_space (t # ts)"

definition clsx :: "string list \<Rightarrow> string" where
  "clsx args = join_space (filter (\<lambda>s. s \<noteq> []) args)"

text \<open>\<^verbatim>\<open>function Feature({title, Svg, description}: FeatureItem)\<close>\<close>

definition Feature :: "styles \<Rightarrow> FeatureItem \<Rightarrow> node" where
  "Feature st item =
    Element (Tag ''div'') [(''className'', clsx [''col col--4''])]
      [ Element (Tag ''div'') [(''className'', ''text--center'')]
          [ Element (Comp (Svg item))
              [(''className'', featureSvg st), (''role'', ''img'')] [] ],
        Element (Tag ''div'') [(''className'', ''text--center padding-horiz--md'')]
          [ Element (Comp Heading) [(''as'', ''h3'')] [Text (title item)],
            Element (Tag ''p'') [] [description item] ] ]"

text \<open>
  The body of \<^verbatim>\<open>HomepageFeatures\<close>, with the array it maps over as an argument:
  \<^verbatim>\<open>xs.map((props, idx) => <Feature key={idx} {...props} />)\<close> inside the section, the
  container and the row.
\<close>

definition HomepageFeatures_of :: "styles \<Rightarrow> FeatureItem list \<Rightarrow> node" where
  "HomepageFeatures_of st xs =
    Element (Tag ''section'') [(''className'', features st)]
      [ Element (Tag ''div'') [(''className'', ''container'')]
          [ Element (Tag ''div'') [(''className'', ''row'')]
              (map (\<lambda>(idx, props). Keyed idx (Feature st props)) (enumerate 0 xs)) ] ]"

text \<open>\<^verbatim>\<open>export default function HomepageFeatures()\<close>: the body on the module's constant.\<close>

definition HomepageFeatures :: "styles \<Rightarrow> node" where
  "HomepageFeatures st = HomepageFeatures_of st FeatureList"

subsection \<open>The array behind the constant\<close>







subsection \<open>Reading a tree\<close>

fun children :: "node \<Rightarrow> node list" where
  "children (Text s) = []"
| "children (Fragment cs) = cs"
| "children (Element t ps cs) = cs"
| "children (Keyed k n) = children n"

fun child :: "nat \<Rightarrow> node \<Rightarrow> node option" where
  "child i n = (if i < length (children n) then Some (children n ! i) else None)"

fun at_path :: "nat list \<Rightarrow> node \<Rightarrow> node option" where
  "at_path [] n = Some n"
| "at_path (i # is) n = (case child i n of None \<Rightarrow> None | Some c \<Rightarrow> at_path is c)"

fun props_of :: "node \<Rightarrow> (string \<times> string) list" where
  "props_of (Element t ps cs) = ps"
| "props_of (Keyed k n) = props_of n"
| "props_of _ = []"

fun key_of :: "node \<Rightarrow> nat option" where
  "key_of (Keyed k n) = Some k"
| "key_of _ = None"

text \<open>The blocks of a rendered section: the children of the row inside the container.\<close>

definition blocks :: "node \<Rightarrow> node list option" where
  "blocks out = map_option children (at_path [0, 0] out)"

text \<open>The text shown by a heading element: its only child, when that is a string.\<close>

fun heading_text :: "node \<Rightarrow> string option" where
  "heading_text (Element (Comp Heading) ps [Text s]) = Some s"
| "heading_text _ = None"

text \<open>The content of a paragraph element: its only child.\<close>

fun paragraph_content :: "node \<Rightarrow> node option" where
  "paragraph_content (Element (Tag t) ps [c]) = (if t = ''p'' then Some c else None)"
| "paragraph_content _ = None"

text \<open>The component an icon element instantiates, when it carries a \<open>role\<close>.\<close>

fun icon_component :: "node \<Rightarrow> component option" where
  "icon_component (Element (Comp c) ps []) =
     (case map_of ps ''role'' of None \<Rightarrow> None | Some r \<Rightarrow> Some c)"
| "icon_component _ = None"

text \<open>
  The three regions of a block, each at its place: the icon element inside the first
  child, the heading and the paragraph inside the second.
\<close>

definition block_icon :: "node \<Rightarrow> node option" where
  "block_icon b = at_path [0, 0] b"

definition block_title :: "node \<Rightarrow> string option" where
  "block_title b = Option.bind (at_path [1, 0] b) heading_text"

definition block_description :: "node \<Rightarrow> node option" where
  "block_description b = Option.bind (at_path [1, 1] b) paragraph_content"

text \<open>The \<open>role\<close> prop of a block's icon element.\<close>

definition block_icon_role :: "node \<Rightarrow> string option" where
  "block_icon_role b = Option.bind (block_icon b) (\<lambda>e. map_of (props_of e) ''role'')"

text \<open>Reading a descriptor back from a block.\<close>

definition read_block :: "node \<Rightarrow> FeatureItem option" where
  "read_block b =
    (case (block_title b, Option.bind (block_icon b) icon_component, block_description b) of
       (Some t, Some c, Some d) \<Rightarrow> Some \<lparr> title = t, Svg = c, description = d \<rparr>
     | _ \<Rightarrow> None)"

text \<open>
  A tree in document order: every element's type when it opens, and every string.
\<close>

datatype token = Open etype | Str string

fun preorder :: "node \<Rightarrow> token list" where
  "preorder (Text s) = [Str s]"
| "preorder (Fragment cs) = concat (map preorder cs)"
| "preorder (Element t ps cs) = Open t # concat (map preorder cs)"
| "preorder (Keyed k n) = preorder n"


section \<open>The site configuration (docusaurus.config.ts)\<close>

subsection \<open>Values of object literals\<close>

text \<open>
  The value of an object literal: strings, numbers, booleans, regular-expression
  literals (by their pattern), arrays, and objects as their key-value pairs in the order
  written. \<open>JImported\<close> is a value taken from an imported module, named by the
  expression that reads it.
\<close>

datatype jsval =
    JStr string
  | JNum real
  | JBool bool
  | JRegExp string
  | JImported string
  | JArr "jsval list"
  | JObj "(string \<times> jsval) list"

text \<open>Property lookup; of two equal keys in a literal, the later one is the property.\<close>

fun get :: "string \<Rightarrow> jsval \<Rightarrow> jsval option" where
  "get k (JObj kvs) = map_of (rev kvs) k"
| "get k _ = None"

fun elem :: "nat \<Rightarrow> jsval \<Rightarrow> jsval option" where
  "elem i (JArr xs) = (if i < length xs then Some (xs ! i) else None)"
| "elem i _ = None"

datatype step = Key string | Idx nat

fun get_path :: "step list \<Rightarrow> jsval \<Rightarrow> jsval option" where
  "get_path [] v = Some v"
| "get_path (Key k # p) v = (case get k v of None \<Rightarrow> None | Some w \<Rightarrow> get_path p w)"
| "get_path (Idx i # p) v = (case elem i v of None \<Rightarrow> None | Some w \<Rightarrow> get_path p w)"

text \<open>
  Replacing the value at a path of keys, leaving every other property as it is. A path
  that does not lead anywhere leaves the value unchanged.
\<close>

fun put :: "string list \<Rightarrow> jsval \<Rightarrow> jsval \<Rightarrow> jsval" where
  "put [] w v = w"
| "put (k # p) w (JObj kvs) = JObj (map (\<lambda>(k', x). if k' = k then (k', put p w x) else (k', x)) kvs)"
| "put (k # p) w v = v"

subsection \<open>Numbers in template literals\<close>

text \<open>
  \<^verbatim>\<open>${n}\<close> for an integer \<open>n\<close>: its decimal digits, with a minus sign when negative.
\<close>

definition digit_char :: "nat \<Rightarrow> char" where
  "digit_char d = ''0123456789'' ! d"

fun string_of_nat :: "nat \<Rightarrow> string" where
  "string_of_nat n =
     (if n < 10 then [digit_char n] else string_of_nat (n div 10) @ [digit_char (n mod 10)])"

declare string_of_nat.simps [simp del]

definition string_of_int :: "int \<Rightarrow> string" where
  "string_of_int i = (if i < 0 then ''-'' @ string_of_nat (nat (- i)) else string_of_nat (nat i))"

subsection \<open>The configuration object\<close>

text \<open>
  \<^verbatim>\<open>`Copyright ... ${new Date().getFullYear()} Protekt Dev`\<close>, for the year the clock gives
  when the module is evaluated. Between \<open>Copyright\<close> and the year the source file has
  the two characters U+00C2 and U+00A9.
\<close>

definition copyright_text :: "int \<Rightarrow> string" where
  "copyright_text year =
     ''Copyright '' @ [CHR 0xC2, CHR 0xA9] @ '' '' @ string_of_int year @ '' Protekt Dev''"

definition search_local_options :: jsval where
  "search_local_options = JObj
    [ (''indexDocs'', JBool True),
      (''indexBlog'', JBool True),
      (''indexPages'', JBool False),
      (''searchResultLimits'', JNum 8),
      (''searchResultContextMaxLength'', JNum 50),
      (''explicitSearchResultPath'', JBool True),
      (''language'', JArr [JStr ''en'']),
      (''useAllContextsWithNoSearchContext'', JBool False),
      (''ignoreFiles'', JArr [JRegExp (''(?:^|'' @ [CHR 0x5C] @ ''/)_'')]),
      (''removeDefaultStopWordFilter'', JBool True) ]"

definition navbar :: jsval where
  "navbar = JObj
    [ (''title'', JStr ''Protekt''),
      (''logo'', JObj [(''alt'', JStr ''Protekt Logo''), (''src'', JStr ''img/logo.svg'')]),
      (''items'', JArr
        [ JObj [ (''type'', JStr ''docSidebar''),
                 (''sidebarId'', JStr ''tutorialSidebar''),
                 (''position'', JStr ''left''),
                 (''label'', JStr ''Documentation'') ],
          JObj [ (''type'', JStr ''dropdown''),
                 (''label'', JStr ''API''),
                 (''position'', JStr ''left''),
                 (''items'', JArr
                   [ JObj [(''label'', JStr ''API Reference''),
                           (''to'', JStr ''/docs/api/authentication'')],
                     JObj [(''label'', JStr ''SDKs''),
                           (''to'', JStr ''/docs/sdks/javascript'')] ]) ],
          JObj [ (''type'', JStr ''search''),
                 (''position'', JStr ''right'') ],
          JObj [ (''href'', JStr ''https://github.com/protekt/protekt-docs''),
                 (''label'', JStr ''GitHub''),
                 (''position'', JStr ''right'') ],
          JObj [ (''href'', JStr ''https://dashboard.protekt.dev''),
                 (''label'', JStr ''Dashboard''),
                 (''position'', JStr ''right'') ] ]) ]"

definition footer :: "int \<Rightarrow> jsval" where
  "footer year = JObj
    [ (''style'', JStr ''dark''),
      (''links'', JArr
        [ JObj [ (''title'', JStr ''Docs''),
                 (''items'', JArr
                   [ JObj [(''label'', JStr ''Tutorial''), (''to'', JStr ''/docs/intro'')] ]) ],
          JObj [ (''title'', JStr ''Community''),
                 (''items'', JArr
                   [ JObj [(''label'', JStr ''Stack Overflow''),
                           (''href'', JStr ''https://stackoverflow.com/questions/tagged/docusaurus'')],
                     JObj [(''label'', JStr ''Discord''),
                           (''href'', JStr ''https://discordapp.com/invite/docusaurus'')],
                     JObj [(''label'', JStr ''X''),
                           (''href'', JStr ''https://x.com/docusaurus'')] ]) ],
          JObj [ (''title'', JStr ''More''),
                 (''items'', JArr
                   [ JObj [(''label'', JStr ''Blog''), (''to'', JStr ''/blog'')],
                     JObj [(''label'', JStr ''GitHub''),
                           (''href'', JStr ''https://github.com/facebook/docusaurus'')] ]) ] ]),
      (''copyright'', JStr (copyright_text year)) ]"

definition classic_preset_options :: jsval where
  "classic_preset_options = JObj
    [ (''docs'', JObj
        [ (''sidebarPath'', JStr ''./sidebars.ts''),
          (''editUrl'', JStr ''https://github.com/protekt/protekt-docs/tree/main/'') ]),
      (''blog'', JObj
        [ (''showReadingTime'', JBool True),
          (''feedOptions'', JObj
            [ (''type'', JArr [JStr ''rss'', JStr ''atom'']),
              (''xslt'', JBool True) ]),
          (''editUrl'', JStr
            (''https://github.com/facebook/docusaurus/tree/main/packages/'' @
             ''create-docusaurus/templates/shared/'')),
          (''onInlineTags'', JStr ''warn''),
          (''onInlineAuthors'', JStr ''warn''),
          (''onUntruncatedBlogPosts'', JStr ''warn'') ]),
      (''theme'', JObj [(''customCss'', JStr ''./src/css/custom.css'')]) ]"

text \<open>
  \<^verbatim>\<open>const config: Config = {...}\<close>. The literal reads the clock once, for the footer's
  copyright line; \<open>year\<close> is what \<^verbatim>\<open>new Date().getFullYear()\<close> returns at that moment.
\<close>

definition config :: "int \<Rightarrow> jsval" where
  "config year = JObj
    [ (''title'', JStr ''Protekt Developer Documentation''),
      (''tagline'', JStr ''Secure authentication made simple for developers''),
      (''favicon'', JStr ''img/favicon.ico''),
      (''future'', JObj [(''v4'', JBool True)]),
      (''url'', JStr ''https://dickson-mwendia.github.io''),
      (''baseUrl'', JStr ''/protekt-docs/''),
      (''organizationName'', JStr ''Dickson-Mwendia''),
      (''projectName'', JStr ''protekt-docs''),
      (''onBrokenLinks'', JStr ''throw''),
      (''onBrokenMarkdownLinks'', JStr ''warn''),
      (''i18n'', JObj [(''defaultLocale'', JStr ''en''), (''locales'', JArr [JStr ''en''])]),
      (''presets'', JArr [JArr [JStr ''classic'', classic_preset_options]]),
      (''plugins'', JArr
        [JArr [JStr ''@easyops-cn/docusaurus-search-local'', search_local_options]]),
      (''themeConfig'', JObj
        [ (''image'', JStr ''img/docusaurus-social-card.jpg''),
          (''navbar'', navbar),
          (''footer'', footer year),
          (''prism'', JObj
            [ (''theme'', JImported ''prismThemes.github''),
              (''darkTheme'', JImported ''prismThemes.dracula'') ]) ]) ]"

subsection \<open>Reading the configuration\<close>

fun items_of :: "jsval option \<Rightarrow> jsval list" where
  "items_of (Some (JArr xs)) = xs"
| "items_of _ = []"

fun is_string :: "jsval option \<Rightarrow> bool" where
  "is_string (Some (JStr s)) = True"
| "is_string _ = False"

fun is_array :: "jsval option \<Rightarrow> bool" where
  "is_array (Some (JArr xs)) = True"
| "is_array _ = False"

definition navbar_items :: "jsval \<Rightarrow> jsval list" where
  "navbar_items c = items_of (get_path [Key ''themeConfig'', Key ''navbar'', Key ''items''] c)"

definition footer_links :: "jsval \<Rightarrow> jsval list" where
  "footer_links c = items_of (get_path [Key ''themeConfig'', Key ''footer'', Key ''links''] c)"

definition nested_entries :: "jsval \<Rightarrow> jsval list" where
  "nested_entries e = items_of (get ''items'' e)"

text \<open>An entry has a target: a path (\<open>to\<close>) or a URL (\<open>href\<close>).\<close>

definition has_target :: "jsval \<Rightarrow> bool" where
  "has_target e \<longleftrightarrow> is_string (get ''to'' e) \<or> is_string (get ''href'' e)"

text \<open>An entry contains nested entries: it has a list under \<open>items\<close>.\<close>

definition has_nested_entries :: "jsval \<Rightarrow> bool" where
  "has_nested_entries e \<longleftrightarrow> is_array (get ''items'' e)"

text \<open>A direct link: a label together with a target.\<close>

definition is_direct_link :: "jsval \<Rightarrow> bool" where
  "is_direct_link e \<longleftrightarrow> is_string (get ''label'' e) \<and> has_target e"

text \<open>
  A grouping: an entry that contains nested entries and is a dropdown (\<open>type = dropdown\<close>
  with a label) or a category (with a title).
\<close>

definition is_grouping :: "jsval \<Rightarrow> bool" where
  "is_grouping e \<longleftrightarrow>
     has_nested_entries e \<and>
     ((get ''type'' e = Some (JStr ''dropdown'') \<and> is_string (get ''label'' e))
      \<or> is_string (get ''title'' e))"

text \<open>
  The shapes of entry the configuration has, each with everything it must and must not
  have:
  \<^item> a direct link has a label and exactly one target, \<open>to\<close> or \<open>href\<close>, no title and
    nothing nested;
  \<^item> a dropdown has \<open>type = dropdown\<close>, a label and nested entries, no title and no
    target;
  \<^item> a titled group has a title and nested entries, no type, no label and no target;
  \<^item> a sidebar reference has \<open>type = docSidebar\<close>, a label and a sidebar id, no title,
    no target and nothing nested;
  \<^item> the search box has \<open>type = search\<close>, and no label, no title, no target and
    nothing nested.
  An entry is tested against the five in this order; they exclude one another.
\<close>

datatype entry_kind =
  DirectLink | Dropdown | TitledGroup | SidebarReference | SearchBox | Unrecognised

definition entry_kind_of :: "jsval \<Rightarrow> entry_kind" where
  "entry_kind_of e =
     (if is_string (get ''label'' e)
         \<and> ((is_string (get ''to'' e) \<and> get ''href'' e = None)
              \<or> (get ''to'' e = None \<and> is_string (get ''href'' e)))
         \<and> get ''title'' e = None \<and> get ''items'' e = None
      then DirectLink
      else if get ''type'' e = Some (JStr ''dropdown'') \<and> is_string (get ''label'' e)
         \<and> has_nested_entries e
         \<and> get ''title'' e = None \<and> get ''to'' e = None \<and> get ''href'' e = None
      then Dropdown
      else if is_string (get ''title'' e) \<and> has_nested_entries e
         \<and> get ''type'' e = None \<and> get ''label'' e = None
         \<and> get ''to'' e = None \<and> get ''href'' e = None
      then TitledGroup
      else if get ''type'' e = Some (JStr ''docSidebar'') \<and> is_string (get ''label'' e)
         \<and> is_string (get ''sidebarId'' e)
         \<and> get ''title'' e = None \<and> get ''to'' e = None \<and> get ''href'' e = None
         \<and> get ''items'' e = None
      then SidebarReference
      else if get ''type'' e = Some (JStr ''search'')
         \<and> get ''label'' e = None \<and> get ''title'' e = None
         \<and> get ''to'' e = None \<and> get ''href'' e = None \<and> get ''items'' e = None
      then SearchBox
      else Unrecognised)"

text \<open>The type of a value, as far as the option list of the search plugin needs it.\<close>

datatype shape =
    SBoolean | SInteger | SNumber | SString | SRegExp | SImported
  | SList "shape list" | SObject

fun shape_of :: "jsval \<Rightarrow> shape" where
  "shape_of (JBool b) = SBoolean"
| "shape_of (JNum r) = (if of_int \<lfloor>r\<rfloor> = r then SInteger else SNumber)"
| "shape_of (JStr s) = SString"
| "shape_of (JRegExp s) = SRegExp"
| "shape_of (JImported s) = SImported"
| "shape_of (JArr xs) = SList (map shape_of xs)"
| "shape_of (JObj kvs) = SObject"

text \<open>The options object of the first plugin: \<^verbatim>\<open>plugins[0][1]\<close>.\<close>

definition search_plugin_options :: "jsval \<Rightarrow> (string \<times> jsval) list" where
  "search_plugin_options c =
     (case get_path [Key ''plugins'', Idx 0, Idx 1] c of
        Some (JObj kvs) \<Rightarrow> kvs
      | _ \<Rightarrow> [])"

subsection \<open>The framework's reaction to a reported failure\<close>

text \<open>
  Modelled from the spec: the framework that reads \<open>onBrokenLinks\<close> and
  \<open>onBrokenMarkdownLinks\<close> and reacts to a failure is not part of the repository. The
  spec says of it that a failure configured as \<open>throw\<close> aborts the build (fail-fast)
  and that one configured as \<open>warn\<close> only produces a warning (non-fatal). A build is
  either aborted with a message, or running with the warnings printed so far. Of other
  settings the spec says nothing, and the model gives no result for them.
\<close>

datatype build = Aborted string | Running "string list"

fun report :: "jsval option \<Rightarrow> string \<Rightarrow> string list \<Rightarrow> build option" where
  "report (Some (JStr severity)) msg warnings =
     (if severity = ''throw'' then Some (Aborted msg)
      else if severity = ''warn'' then Some (Running (warnings @ [msg]))
      else None)"
| "report _ msg warnings = None"

definition broken_link :: "jsval \<Rightarrow> string \<Rightarrow> string list \<Rightarrow> build option" where
  "broken_link c msg warnings = report (get ''onBrokenLinks'' c) msg warnings"

definition broken_markdown_link :: "jsval \<Rightarrow> string \<Rightarrow> string list \<Rightarrow> build option" where
  "broken_markdown_link c msg warnings = report (get ''onBrokenMarkdownLinks'' c) msg warnings"

section \<open>Properties of the feature list\<close>

lemma at_path_Feature_heading:
  "at_path [1, 0] (Keyed k (Feature st f)) = Some (Element (Comp Heading) [(''as'', ''h3'')] [Text (title f)])"
  by (simp add: Feature_def)

lemma at_path_Feature_icon:
  "at_path [0, 0] (Keyed k (Feature st f)) =
     Some (Element (Comp (Svg f)) [(''className'', featureSvg st), (''role'', ''img'')] [])"
  by (simp add: Feature_def)

lemma at_path_Feature_paragraph:
  "at_path [1, 1] (Keyed k (Feature st f)) = Some (Element (Tag ''p'') [] [description f])"
  by (simp add: Feature_def)

lemma block_title_Feature: "block_title (Keyed k (Feature st f)) = Some (title f)"
  unfolding block_title_def at_path_Feature_heading by simp

lemma block_description_Feature: "block_description (Keyed k (Feature st f)) = Some (description f)"
  unfolding block_description_def at_path_Feature_paragraph by simp

lemma block_icon_Feature:
  "block_icon (Keyed k (Feature st f)) =
     Some (Element (Comp (Svg f)) [(''className'', featureSvg st), (''role'', ''img'')] [])"
  unfolding block_icon_def at_path_Feature_icon by simp

lemma read_block_Feature: "read_block (Keyed k (Feature st f)) = Some f"
  by (simp add: read_block_def block_title_Feature block_description_Feature block_icon_Feature)

lemma blocks_HomepageFeatures_of:
  "blocks (HomepageFeatures_of st xs) =
     Some (map (\<lambda>(idx, props). Keyed idx (Feature st props)) (enumerate 0 xs))"
  by (simp add: blocks_def HomepageFeatures_of_def)

lemma map_read_block_enumerate:
  "map read_block (map (\<lambda>(idx, props). Keyed idx (Feature st props)) (enumerate n xs))
     = map Some xs"
  by (induction xs arbitrary: n) (simp_all add: read_block_Feature)

lemma map_key_of_enumerate:
  "map key_of (map (\<lambda>(idx, props). Keyed idx (Feature st props)) (enumerate n xs))
     = map Some [n ..< n + length xs]"
  by (induction xs arbitrary: n) (simp_all add: upt_rec)

text \<open>
  C1. For every sequence of descriptors the rendered section has exactly as many blocks
  as there are descriptors (also for the empty sequence), the blocks carry the keys
  0, 1, 2, ... in order, and reading the blocks back in order gives the input sequence:
  block i is the block of descriptor i. The exported component is this on the constant
  list, so its blocks read back as that list.
\<close>

theorem HomepageFeatures_of_blocks_in_order:
  "map_option length (blocks (HomepageFeatures_of st xs)) = Some (length xs) \<and>
   map_option (map read_block) (blocks (HomepageFeatures_of st xs)) = Some (map Some xs) \<and>
   map_option (map key_of) (blocks (HomepageFeatures_of st xs)) = Some (map Some [0 ..< length xs]) \<and>
   map_option (map read_block) (blocks (HomepageFeatures st)) = Some (map Some FeatureList)"
  using map_read_block_enumerate [of st 0 xs] map_key_of_enumerate [of st 0 xs]
    map_read_block_enumerate [of st 0 FeatureList]
  by (simp add: HomepageFeatures_def blocks_HomepageFeatures_of del: map_map)

lemma map_block_title_enumerate:
  "map block_title (map (\<lambda>(idx, props). Keyed idx (Feature st props)) (enumerate n xs))
     = map (\<lambda>f. Some (title f)) xs"
  by (induction xs arbitrary: n) (simp_all add: block_title_Feature)

lemma map_block_description_enumerate:
  "map block_description (map (\<lambda>(idx, props). Keyed idx (Feature st props)) (enumerate n xs))
     = map (\<lambda>f. Some (description f)) xs"
  by (induction xs arbitrary: n) (simp_all add: block_description_Feature)

lemma map_block_icon_enumerate:
  "map block_icon (map (\<lambda>(idx, props). Keyed idx (Feature st props)) (enumerate n xs))
     = map (\<lambda>f. Some (Element (Comp (Svg f))
                          [(''className'', featureSvg st), (''role'', ''img'')] [])) xs"
  by (induction xs arbitrary: n) (simp_all add: block_icon_Feature)

lemma map_block_icon_role_enumerate:
  "map block_icon_role (map (\<lambda>(idx, props). Keyed idx (Feature st props)) (enumerate n xs))
     = replicate (length xs) (Some ''img'')"
  by (induction xs arbitrary: n) (simp_all add: block_icon_role_def block_icon_Feature)

text \<open>
  C2. In the rendered section of any sequence of descriptors, the titles shown by the
  blocks' headings are the descriptors' titles, the contents of the blocks' paragraphs are
  the descriptors' descriptions, and the blocks' icons are elements of the descriptors'
  \<open>Svg\<close> components with no children and the props \<open>className\<close> and \<open>role = img\<close>;
  all three position by position, each field unchanged. Every block's icon has the role
  \<open>img\<close>.
\<close>

theorem HomepageFeatures_of_fields_verbatim:
  "map_option (map block_title) (blocks (HomepageFeatures_of st xs))
     = Some (map (\<lambda>f. Some (title f)) xs) \<and>
   map_option (map block_description) (blocks (HomepageFeatures_of st xs))
     = Some (map (\<lambda>f. Some (description f)) xs) \<and>
   map_option (map block_icon) (blocks (HomepageFeatures_of st xs))
     = Some (map (\<lambda>f. Some (Element (Comp (Svg f))
                                [(''className'', featureSvg st), (''role'', ''img'')] [])) xs) \<and>
   map_option (map block_icon_role) (blocks (HomepageFeatures_of st xs))
     = Some (replicate (length xs) (Some ''img''))"
  using map_block_title_enumerate [of st 0 xs] map_block_description_enumerate [of st 0 xs]
    map_block_icon_enumerate [of st 0 xs] map_block_icon_role_enumerate [of st 0 xs]
  by (simp add: blocks_HomepageFeatures_of del: map_map)

text \<open>
  C7. On the empty sequence the component returns the section with its container and an
  empty row: a tree with zero blocks. The component has no failing branch.
\<close>

theorem HomepageFeatures_of_empty:
  "HomepageFeatures_of st [] =
     Element (Tag ''section'') [(''className'', features st)]
       [Element (Tag ''div'') [(''className'', ''container'')]
         [Element (Tag ''div'') [(''className'', ''row'')] []]] \<and>
   blocks (HomepageFeatures_of st []) = Some []"
  by (simp add: blocks_def HomepageFeatures_of_def)




text \<open>
  C10. For every descriptor and style sheet, the block in document order is: the outer
  div, the icon's div, the icon element, the text div, the heading, the title, the
  paragraph, and then the description. The icon's div has the class \<open>text--center\<close>,
  and the heading is given \<open>as = h3\<close>. Nothing of this depends on the descriptor's fields.
\<close>

theorem Feature_document_order:
  "preorder (Feature st f) =
     [Open (Tag ''div''), Open (Tag ''div''), Open (Comp (Svg f)), Open (Tag ''div''),
      Open (Comp Heading), Str (title f), Open (Tag ''p'')] @ preorder (description f) \<and>
   map_option props_of (at_path [0] (Feature st f)) = Some [(''className'', ''text--center'')] \<and>
   map_option props_of (at_path [1, 0] (Feature st f)) = Some [(''as'', ''h3'')] \<and>
   map_option children (at_path [0] (Feature st f)) =
     Some [Element (Comp (Svg f)) [(''className'', featureSvg st), (''role'', ''img'')] []] \<and>
   map_option children (at_path [1] (Feature st f)) =
     Some [Element (Comp Heading) [(''as'', ''h3'')] [Text (title f)],
           Element (Tag ''p'') [] [description f]]"
  by (simp add: Feature_def)

section \<open>Properties of the configuration\<close>

subsection \<open>Printing a number is injective\<close>

lemma digit_char_inj: "a < 10 \<Longrightarrow> b < 10 \<Longrightarrow> digit_char a = digit_char b \<Longrightarrow> a = b"
  unfolding digit_char_def by (subst (asm) nth_eq_iff_index_eq) simp_all

lemma digit_char_not_minus: "d < 10 \<Longrightarrow> digit_char d \<noteq> CHR ''-''"
proof -
  assume "d < 10"
  then have "digit_char d \<in> set ''0123456789''"
    unfolding digit_char_def by (intro nth_mem) simp
  then show ?thesis by auto
qed

lemma string_of_nat_small: "n < 10 \<Longrightarrow> string_of_nat n = [digit_char n]"
  by (subst string_of_nat.simps) simp

lemma string_of_nat_large:
  "\<not> n < 10 \<Longrightarrow> string_of_nat n = string_of_nat (n div 10) @ [digit_char (n mod 10)]"
  by (subst string_of_nat.simps) simp

lemma string_of_nat_nonempty: "string_of_nat n \<noteq> []"
  by (cases "n < 10") (simp_all add: string_of_nat_small string_of_nat_large)

lemma string_of_nat_single: "string_of_nat n = [c] \<Longrightarrow> n < 10"
  by (cases "n < 10") (simp_all add: string_of_nat_large string_of_nat_nonempty)

lemma string_of_nat_inj: "string_of_nat m = string_of_nat n \<Longrightarrow> m = n"
proof (induction m arbitrary: n rule: string_of_nat.induct)
  case (1 m)
  show ?case
  proof (cases "m < 10")
    case True
    then have eq: "string_of_nat n = [digit_char m]"
      using "1.prems" by (simp add: string_of_nat_small)
    then have n: "n < 10" by (rule string_of_nat_single)
    then have "digit_char n = digit_char m"
      using eq by (simp add: string_of_nat_small)
    then show ?thesis using True n digit_char_inj by blast
  next
    case False
    then have eq: "string_of_nat n = string_of_nat (m div 10) @ [digit_char (m mod 10)]"
      using "1.prems" by (simp add: string_of_nat_large)
    have n: "\<not> n < 10"
    proof
      assume "n < 10"
      then have "string_of_nat n = [digit_char n]" by (rule string_of_nat_small)
      then show False using eq string_of_nat_nonempty by simp
    qed
    then have "string_of_nat n = string_of_nat (n div 10) @ [digit_char (n mod 10)]"
      by (rule string_of_nat_large)
    then have a: "string_of_nat (m div 10) = string_of_nat (n div 10)"
      and b: "digit_char (m mod 10) = digit_char (n mod 10)"
      using eq by simp_all
    have "m div 10 = n div 10" using "1.IH" False a by blast
    moreover have "m mod 10 = n mod 10" using b digit_char_inj [of "m mod 10" "n mod 10"] by simp
    ultimately show ?thesis by (metis div_mult_mod_eq)
  qed
qed

lemma hd_string_of_nat: "hd (string_of_nat n) \<noteq> CHR ''-''"
proof (induction n rule: string_of_nat.induct)
  case (1 n)
  show ?case
  proof (cases "n < 10")
    case True
    then show ?thesis by (simp add: string_of_nat_small digit_char_not_minus)
  next
    case False
    then show ?thesis using "1.IH" string_of_nat_nonempty
      by (simp add: string_of_nat_large hd_append)
  qed
qed

lemma minus_string_of_nat: "CHR ''-'' # string_of_nat a \<noteq> string_of_nat b"
  by (metis hd_string_of_nat list.sel(1))

lemma string_of_int_inj: "string_of_int i = string_of_int j \<Longrightarrow> i = j"
proof -
  assume eq: "string_of_int i = string_of_int j"
  consider "i < 0" "j < 0" | "i < 0" "\<not> j < 0" | "\<not> i < 0" "j < 0" | "\<not> i < 0" "\<not> j < 0"
    by blast
  then show ?thesis
  proof cases
    case 1
    with eq have "string_of_nat (nat (- i)) = string_of_nat (nat (- j))"
      by (simp add: string_of_int_def)
    then have "nat (- i) = nat (- j)" by (rule string_of_nat_inj)
    with 1 show ?thesis by simp
  next
    case 2
    with eq minus_string_of_nat [of "nat (- i)" "nat j"] show ?thesis
      by (simp add: string_of_int_def)
  next
    case 3
    with eq minus_string_of_nat [of "nat (- j)" "nat i"] show ?thesis
      by (simp add: string_of_int_def)
  next
    case 4
    with eq have "string_of_nat (nat i) = string_of_nat (nat j)"
      by (simp add: string_of_int_def)
    then have "nat i = nat j" by (rule string_of_nat_inj)
    with 4 show ?thesis by simp
  qed
qed

subsection \<open>Failure severities\<close>

text \<open>
  C3. Whatever the year, the configuration sets \<open>onBrokenLinks\<close> to \<open>throw\<close> and
  \<open>onBrokenMarkdownLinks\<close> to \<open>warn\<close>, two different severities. Under the framework's
  reaction as the spec describes it, a broken internal link aborts the build with its
  message, and a broken Markdown link leaves the build running with one more warning.
\<close>

theorem config_broken_link_severities:
  "get ''onBrokenLinks'' (config year) = Some (JStr ''throw'') \<and>
   get ''onBrokenMarkdownLinks'' (config year) = Some (JStr ''warn'') \<and>
   get ''onBrokenLinks'' (config year) \<noteq> get ''onBrokenMarkdownLinks'' (config year) \<and>
   broken_link (config year) msg warnings = Some (Aborted msg) \<and>
   broken_markdown_link (config year) msg warnings = Some (Running (warnings @ [msg]))"
  by (simp add: config_def broken_link_def broken_markdown_link_def)

subsection \<open>Dependence on the clock\<close>

lemma copyright_text_inj: "copyright_text y1 = copyright_text y2 \<Longrightarrow> y1 = y2"
  by (simp add: copyright_text_def string_of_int_inj)

text \<open>
  C4, as the claim states it, fails: evaluated in 2025 and in 2026 the configuration is
  two different objects.
\<close>

theorem config_differs_between_years: "config 2025 \<noteq> config 2026"
  by (simp add: config_def footer_def copyright_text_def string_of_int_def digit_char_def
      string_of_nat.simps)

text \<open>
  C4, amended. The configuration depends on the clock through the year alone, and only
  in \<open>themeConfig.footer.copyright\<close>: two evaluations give the same object exactly when
  they read the same year; with the copyright line replaced by any one value the two
  objects are the same whatever the years; and the copyright line is the text around
  the decimal year.
\<close>

theorem config_clock_only_in_copyright:
  "(config y1 = config y2) = (y1 = y2) \<and>
   put [''themeConfig'', ''footer'', ''copyright''] w (config y1)
     = put [''themeConfig'', ''footer'', ''copyright''] w (config y2) \<and>
   get_path [Key ''themeConfig'', Key ''footer'', Key ''copyright''] (config y1)
     = Some (JStr (''Copyright '' @ [CHR 0xC2, CHR 0xA9] @ '' '' @ string_of_int y1 @ '' Protekt Dev''))"
proof (intro conjI)
  show "(config y1 = config y2) = (y1 = y2)"
    using copyright_text_inj [of y1 y2] by (auto simp add: config_def footer_def)
  show "put [''themeConfig'', ''footer'', ''copyright''] w (config y1)
     = put [''themeConfig'', ''footer'', ''copyright''] w (config y2)"
    by (simp add: config_def footer_def)
  show "get_path [Key ''themeConfig'', Key ''footer'', Key ''copyright''] (config y1)
     = Some (JStr (''Copyright '' @ [CHR 0xC2, CHR 0xA9] @ '' '' @ string_of_int y1 @ '' Protekt Dev''))"
    by (simp add: config_def footer_def copyright_text_def)
qed

subsection \<open>Navigation entries\<close>

text \<open>
  C5, as the claim states it, fails: the third navbar entry is the search box, which has
  no label, no title, no target and no nested entries, so it is neither a direct link
  nor a grouping.
\<close>

theorem navbar_search_entry_neither:
  "navbar_items (config 2025) ! 2 = JObj [(''type'', JStr ''search''), (''position'', JStr ''right'')] \<and>
   2 < length (navbar_items (config 2025)) \<and>
   get ''label'' (navbar_items (config 2025) ! 2) = None \<and>
   get ''title'' (navbar_items (config 2025) ! 2) = None \<and>
   \<not> has_target (navbar_items (config 2025) ! 2) \<and>
   \<not> has_nested_entries (navbar_items (config 2025) ! 2) \<and>
   \<not> is_direct_link (navbar_items (config 2025) ! 2) \<and>
   \<not> is_grouping (navbar_items (config 2025) ! 2)"
  by (simp add: navbar_items_def config_def navbar_def is_direct_link_def is_grouping_def
      has_target_def has_nested_entries_def)

text \<open>
  C5, amended. Whatever the year:
  \<^item> the navbar entries are, in order, a sidebar reference, a dropdown, the search box
    and two direct links, of the types \<open>docSidebar\<close>, \<open>dropdown\<close>, \<open>search\<close> and, for
    the links, none;
  \<^item> the footer entries are three titled groups, \<open>Docs\<close>, \<open>Community\<close> and \<open>More\<close>;
  \<^item> every entry nested in the dropdown or in a titled group is a direct link, and no
    other navbar entry has anything nested;
  \<^item> the dropdown and the titled groups are the groupings, and the direct links are the
    navbar's last two entries; the sidebar reference and the search box are neither;
  \<^item> the search box has no label, no title, no \<open>to\<close>, no \<open>href\<close> and no \<open>items\<close>.
\<close>

theorem navigation_entry_kinds:
  "map entry_kind_of (navbar_items (config year))
     = [SidebarReference, Dropdown, SearchBox, DirectLink, DirectLink] \<and>
   map (get ''type'') (navbar_items (config year))
     = [Some (JStr ''docSidebar''), Some (JStr ''dropdown''), Some (JStr ''search''), None, None] \<and>
   map entry_kind_of (footer_links (config year)) = [TitledGroup, TitledGroup, TitledGroup] \<and>
   map (get ''title'') (footer_links (config year))
     = [Some (JStr ''Docs''), Some (JStr ''Community''), Some (JStr ''More'')] \<and>
   map (map entry_kind_of \<circ> nested_entries) (navbar_items (config year))
     = [[], [DirectLink, DirectLink], [], [], []] \<and>
   map (map entry_kind_of \<circ> nested_entries) (footer_links (config year))
     = [[DirectLink], [DirectLink, DirectLink, DirectLink], [DirectLink, DirectLink]] \<and>
   map is_grouping (navbar_items (config year)) = [False, True, False, False, False] \<and>
   map is_direct_link (navbar_items (config year)) = [False, False, False, True, True] \<and>
   map is_grouping (footer_links (config year)) = [True, True, True] \<and>
   map (\<lambda>k. get k (navbar_items (config year) ! 2)) [''label'', ''title'', ''to'', ''href'', ''items'']
     = [None, None, None, None, None]"
  by (simp add: navbar_items_def footer_links_def config_def navbar_def footer_def
      entry_kind_of_def is_direct_link_def is_grouping_def nested_entries_def
      has_target_def has_nested_entries_def)

subsection \<open>Search plugin options\<close>

text \<open>
  C9. Whatever the year, the first plugin is the local search plugin, and its options
  are exactly ten, with these names and types in this order: six booleans, two
  integers, \<open>language\<close> a list of one string and \<open>ignoreFiles\<close> a list of one regular
  expression.
\<close>

theorem search_plugin_option_types:
  "get_path [Key ''plugins'', Idx 0, Idx 0] (config year)
     = Some (JStr ''@easyops-cn/docusaurus-search-local'') \<and>
   map (\<lambda>(k, v). (k, shape_of v)) (search_plugin_options (config year)) =
     [ (''indexDocs'', SBoolean),
       (''indexBlog'', SBoolean),
       (''indexPages'', SBoolean),
       (''searchResultLimits'', SInteger),
       (''searchResultContextMaxLength'', SInteger),
       (''explicitSearchResultPath'', SBoolean),
       (''language'', SList [SString]),
       (''useAllContextsWithNoSearchContext'', SBoolean),
       (''ignoreFiles'', SList [SRegExp]),
       (''removeDefaultStopWordFilter'', SBoolean) ] \<and>
   length (search_plugin_options (config year)) = 10 \<and>
   get_path [Key ''plugins'', Idx 0, Idx 1, Key ''language''] (config year) = Some (JArr [JStr ''en''])"
  by (simp add: config_def search_plugin_options_def search_local_options_def)

end
